theory Spec2Isabelle
  imports Main
begin

section \<open>The evaluator state of \<open>eval.hh\<close>\<close>

text \<open>
  \<open>DeterministicEvaluationMode\<close> is the enum at the head of \<open>eval.hh\<close>, in the order of
  the source.
\<close>

datatype DeterministicEvaluationMode = Normal | Record | Playback | RecordAndPlayback

text \<open>
  What the code raises. \<open>EvalError\<close> carries its message. \<open>abort()\<close> ends the process and is
  not an exception; it is the value \<open>Abort\<close>. The two other constructors are the error
  kinds of the operations whose bodies are not in \<open>eval.hh\<close> (section 7 of the
  specification: infinite recursion, file not found).
\<close>

datatype error = EvalError string | Abort | InfiniteRecursion | FileNotFound string

text \<open>
  Of the fields of \<open>class EvalState\<close>, the wrappers of this header read \<open>evalMode\<close> and read
  and write \<open>recording\<close>, the \<open>std::map\<close> from \<open>(name, argument strings)\<close> to \<open>Value\<close>. All
  other fields (caches, search path, counters, the heap the value handles point into) are
  the extension part of the record, so a primop, which receives \<open>EvalState &\<close>, may read
  and change any of it. \<open>'v\<close> is \<open>Value\<close>, which the wrappers copy and never inspect.
\<close>

record 'v EvalState =
  evalMode :: DeterministicEvaluationMode
  recording :: "string \<times> string list \<rightharpoonup> 'v"

text \<open>\<open>isInPlaybackMode\<close>, as the class defines it.\<close>

definition isInPlaybackMode :: "('v, 'a) EvalState_scheme \<Rightarrow> bool" where
  "isInPlaybackMode state = (evalMode state = Playback \<or> evalMode state = RecordAndPlayback)"

text \<open>
  C++ exceptions leave the state as it was when they were thrown: a call returns the
  error or the result together with the state it leaves behind.
\<close>

type_synonym ('r, 's) result = "(error + 'r) \<times> 's"

text \<open>
  \<open>PrimOpFun\<close>: \<open>void (*)(EvalState & state, const Pos & pos, Value * * args, Value & v)\<close>.
  The out-parameter \<open>v\<close> is the returned value; \<open>args\<close> is the pointer to the argument
  handles, read at an index; \<open>'p\<close> is \<open>Pos\<close>.
\<close>

type_synonym ('v, 'p, 'a) PrimOpFun =
  "('v, 'a) EvalState_scheme \<Rightarrow> 'p \<Rightarrow> (nat \<Rightarrow> 'v) \<Rightarrow> ('v, ('v, 'a) EvalState_scheme) result"

text \<open>
  \<open>EvalState::parameterValue\<close> is declared in \<open>eval.hh\<close> and defined elsewhere: it is a
  parameter of the model. It is a non-const member, so it may change the state (it forces
  the value) and may throw.
\<close>

type_synonym ('v, 'a) parameterValue =
  "('v, 'a) EvalState_scheme \<Rightarrow> 'v \<Rightarrow> (string, ('v, 'a) EvalState_scheme) result"

type_synonym UsedArguments = "nat \<Rightarrow> bool"

definition constTrue :: UsedArguments where
  "constTrue arg = True"

definition onlyPos :: "nat \<Rightarrow> UsedArguments" where
  "onlyPos argumentPos arg = (arg = argumentPos)"

section \<open>The Record and Playback wrappers\<close>

text \<open>
  The loop that opens both wrappers,
  \<^verbatim>\<open>for (unsigned int i = 0; i < arity; i++) if (useArgument(i)) argList.push_back(state.parameterValue(*args[i]));\<close>
  as a recursion over the indices still to visit. An exception of \<open>parameterValue\<close> ends
  the loop.
\<close>

primrec argListLoop ::
  "('v, 'a) parameterValue \<Rightarrow> UsedArguments \<Rightarrow> (nat \<Rightarrow> 'v) \<Rightarrow> nat list \<Rightarrow> string list \<Rightarrow>
   ('v, 'a) EvalState_scheme \<Rightarrow> (string list, ('v, 'a) EvalState_scheme) result"
where
  "argListLoop parameterValue useArgument args [] argList state = (Inr argList, state)"
| "argListLoop parameterValue useArgument args (i # rest) argList state =
     (if useArgument i then
        (case parameterValue state (args i) of
           (Inl e, state') \<Rightarrow> (Inl e, state')
         | (Inr s, state') \<Rightarrow>
             argListLoop parameterValue useArgument args rest (argList @ [s]) state')
      else argListLoop parameterValue useArgument args rest argList state)"

definition computeArgList ::
  "('v, 'a) parameterValue \<Rightarrow> nat \<Rightarrow> UsedArguments \<Rightarrow> (nat \<Rightarrow> 'v) \<Rightarrow>
   ('v, 'a) EvalState_scheme \<Rightarrow> (string list, ('v, 'a) EvalState_scheme) result"
where
  "computeArgList parameterValue arity useArgument args state =
     argListLoop parameterValue useArgument args [0..<arity] [] state"

text \<open>
  The key list in the words of the specification (section 4.4: the masked arguments,
  forced and stringified into an ordered list), written without the loop, to be compared
  with it: \<open>maskedArguments\<close> are the arguments at the positions below \<open>arity\<close> that the
  mask selects, in ascending position; \<open>stringifyInOrder\<close> applies \<open>parameterValue\<close> to them
  from first to last, each in the state the one before left, and stops at the first
  exception.
\<close>

definition maskedArguments :: "nat \<Rightarrow> UsedArguments \<Rightarrow> (nat \<Rightarrow> 'v) \<Rightarrow> 'v list" where
  "maskedArguments arity useArgument args = map args (filter useArgument [0..<arity])"

primrec stringifyInOrder ::
  "('v, 'a) parameterValue \<Rightarrow> 'v list \<Rightarrow> ('v, 'a) EvalState_scheme \<Rightarrow>
   (string list, ('v, 'a) EvalState_scheme) result"
where
  "stringifyInOrder parameterValue [] state = (Inr [], state)"
| "stringifyInOrder parameterValue (v # vs) state =
     (case parameterValue state v of
        (Inl e, state') \<Rightarrow> (Inl e, state')
      | (Inr s, state') \<Rightarrow>
          (case stringifyInOrder parameterValue vs state' of
             (Inl e, state'') \<Rightarrow> (Inl e, state'')
           | (Inr ss, state'') \<Rightarrow> (Inr (s # ss), state'')))"

text \<open>
  \<open>recordPrimOp\<close>: the key list, then \<open>primOp(state, pos, args, v)\<close>, then
  \<open>state.recording[std::make_pair(name, argList)] = v\<close>. The template parameters are
  ordinary parameters.
\<close>

definition recordPrimOp ::
  "('v, 'a) parameterValue \<Rightarrow> string \<Rightarrow> nat \<Rightarrow> ('v, 'p, 'a) PrimOpFun \<Rightarrow> UsedArguments \<Rightarrow>
   ('v, 'p, 'a) PrimOpFun"
where
  "recordPrimOp parameterValue name arity primOp useArgument state pos args =
     (case computeArgList parameterValue arity useArgument args state of
        (Inl e, s1) \<Rightarrow> (Inl e, s1)
      | (Inr argList, s1) \<Rightarrow>
          (case primOp s1 pos args of
             (Inl e, s2) \<Rightarrow> (Inl e, s2)
           | (Inr v, s2) \<Rightarrow>
               (Inr v, s2\<lparr>recording := (recording s2)((name, argList) \<mapsto> v)\<rparr>)))"

text \<open>
  \<open>errorMsg.c_str()\<close>: \<open>playbackPrimOp\<close> hands its message to \<open>EvalError\<close> as a C string,
  which ends at the first NUL byte.
\<close>

definition c_str :: "string \<Rightarrow> string" where
  "c_str s = takeWhile (\<lambda>c. c \<noteq> CHR 0x00) s"

text \<open>
  \<open>playbackPrimOp\<close>: the same key list, then \<open>state.recording.find\<close>. On \<open>end()\<close> the message
  is built by \<open>+=\<close>, one \<open>arg + ", "\<close> for each element of \<open>argList\<close>, and thrown; otherwise
  \<open>v = result->second\<close>. The template parameter \<open>primOp\<close> is kept although the body never
  uses it.
\<close>

definition playbackPrimOp ::
  "('v, 'a) parameterValue \<Rightarrow> string \<Rightarrow> nat \<Rightarrow> ('v, 'p, 'a) PrimOpFun \<Rightarrow> UsedArguments \<Rightarrow>
   ('v, 'p, 'a) PrimOpFun"
where
  "playbackPrimOp parameterValue name arity primOp useArgument state pos args =
     (case computeArgList parameterValue arity useArgument args state of
        (Inl e, s1) \<Rightarrow> (Inl e, s1)
      | (Inr argList, s1) \<Rightarrow>
          (case recording s1 (name, argList) of
             None \<Rightarrow>
               (Inl (EvalError (c_str
                  (foldl (\<lambda>errorMsg arg. errorMsg @ (arg @ '', ''))
                     (''wanted to call '' @ name @ ''('') argList @ '')''))), s1)
           | Some second \<Rightarrow> (Inr second, s1)))"

text \<open>
  \<open>transformPrimOp\<close> is a member function: it reads \<open>evalMode\<close> of the state it belongs to
  and returns the function to register. The \<open>default:\<close> label calls \<open>abort()\<close>.
\<close>

definition transformPrimOp ::
  "('v, 'a) parameterValue \<Rightarrow> string \<Rightarrow> nat \<Rightarrow> ('v, 'p, 'a) PrimOpFun \<Rightarrow> UsedArguments \<Rightarrow>
   ('v, 'a) EvalState_scheme \<Rightarrow> error + ('v, 'p, 'a) PrimOpFun"
where
  "transformPrimOp parameterValue name arity primOp useArguments state =
     (case evalMode state of
        Record \<Rightarrow> Inr (recordPrimOp parameterValue name arity primOp useArguments)
      | Playback \<Rightarrow> Inr (playbackPrimOp parameterValue name arity primOp useArguments)
      | Normal \<Rightarrow> Inr primOp
      | _ \<Rightarrow> Inl Abort)"

text \<open>
  \<open>addPrimOp\<close> is declared in \<open>eval.hh\<close> and defined elsewhere: it is a parameter, with any
  result type \<open>'r\<close> (the state with the primop entered in the base environment, or just
  the function that was registered).
\<close>

type_synonym ('v, 'p, 'a, 'r) addPrimOp =
  "string \<Rightarrow> nat \<Rightarrow> ('v, 'p, 'a) PrimOpFun \<Rightarrow> ('v, 'a) EvalState_scheme \<Rightarrow> 'r"

definition addImpurePrimOp ::
  "('v, 'p, 'a, 'r) addPrimOp \<Rightarrow> ('v, 'a) parameterValue \<Rightarrow> string \<Rightarrow> nat \<Rightarrow>
   ('v, 'p, 'a) PrimOpFun \<Rightarrow> UsedArguments \<Rightarrow> ('v, 'a) EvalState_scheme \<Rightarrow> error + 'r"
where
  "addImpurePrimOp addPrimOp parameterValue name arity primOp useArguments state =
     (case transformPrimOp parameterValue name arity primOp useArguments state of
        Inl e \<Rightarrow> Inl e
      | Inr f \<Rightarrow> Inr (addPrimOp name arity f state))"

text \<open>
  \<open>unsupportedPrimOp\<close> throws the \<open>boost::format\<close> message with \<open>name\<close> and \<open>pos\<close> filled in.
  \<open>showPos\<close> is \<open>operator <<\<close> for \<open>Pos\<close>, which is not in \<open>eval.hh\<close>: a parameter.
\<close>

definition unsupportedPrimOp :: "('p \<Rightarrow> string) \<Rightarrow> string \<Rightarrow> ('v, 'p, 'a) PrimOpFun" where
  "unsupportedPrimOp showPos name state pos args =
     (Inl (EvalError (''primop '' @ [CHR 0x27] @ name @ [CHR 0x27]
        @ '' is not (yet) supported in Record/Playback mode (used at '' @ [CHR 0x27]
        @ showPos pos @ [CHR 0x27] @ '')'')), state)"

definition addUnsupportedImpurePrimOp ::
  "('v, 'p, 'a, 'r) addPrimOp \<Rightarrow> ('p \<Rightarrow> string) \<Rightarrow> string \<Rightarrow> nat \<Rightarrow>
   ('v, 'p, 'a) PrimOpFun \<Rightarrow> ('v, 'a) EvalState_scheme \<Rightarrow> 'r"
where
  "addUnsupportedImpurePrimOp addPrimOp showPos name arity primOp state =
     (if evalMode state = Record \<or> evalMode state = Playback
      then addPrimOp name arity (unsupportedPrimOp showPos name) state
      else addPrimOp name arity primOp state)"

section \<open>Operations that \<open>eval.hh\<close> only declares\<close>

text \<open>
  The value cell. \<open>Thunk\<close> holds the handles of the captured frame and expression;
  \<open>App\<close> is the delayed function application of the comment on \<open>forceValue\<close> (the
  specification's partial application whose arity is satisfied), holding the handles of
  the callee and the argument; \<open>Concrete\<close> stands for every other tag. The cells live in a
  store from addresses to cells; what else the evaluator holds is the extension part.
\<close>

datatype 'c Value = Thunk nat nat | Blackhole | App nat nat | Concrete 'c

record 'c Store =
  cells :: "nat \<Rightarrow> 'c Value"

text \<open>
  Modelled from the spec: the body of \<open>EvalState::forceValue\<close>, which \<open>eval.hh\<close> declares
  \<open>inline\<close> and does not define. Section 4.1 of the specification gives it as a state
  machine on the tag of the cell: a concrete cell is left alone; a \<open>Thunk\<close> is marked
  \<open>Blackhole\<close>, its expression is evaluated in its frame, and the cell is overwritten with
  the result, while an error of the evaluation leaves the cell as it is; a \<open>Blackhole\<close>
  fails with the infinite-recursion error; a satisfied application invokes the callee
  and overwrites the cell with the result. \<open>eval\<close> and \<open>callFunction\<close> are parameters; they
  receive the whole state and yield a concrete value.
\<close>

definition forceValue ::
  "(('c, 'a) Store_scheme \<Rightarrow> nat \<Rightarrow> nat \<Rightarrow> ('c, ('c, 'a) Store_scheme) result) \<Rightarrow>
   (('c, 'a) Store_scheme \<Rightarrow> nat \<Rightarrow> nat \<Rightarrow> ('c, ('c, 'a) Store_scheme) result) \<Rightarrow>
   ('c, 'a) Store_scheme \<Rightarrow> 'p \<Rightarrow> nat \<Rightarrow> (unit, ('c, 'a) Store_scheme) result"
where
  "forceValue eval callFunction state pos v =
     (case cells state v of
        Thunk env expr \<Rightarrow>
          (case eval (state\<lparr>cells := (cells state)(v := Blackhole)\<rparr>) env expr of
             (Inl e, s1) \<Rightarrow> (Inl e, s1)
           | (Inr r, s1) \<Rightarrow> (Inr (), s1\<lparr>cells := (cells s1)(v := Concrete r)\<rparr>))
      | Blackhole \<Rightarrow> (Inl InfiniteRecursion, state)
      | App left right \<Rightarrow>
          (case callFunction state left right of
             (Inl e, s1) \<Rightarrow> (Inl e, s1)
           | (Inr r, s1) \<Rightarrow> (Inr (), s1\<lparr>cells := (cells s1)(v := Concrete r)\<rparr>))
      | Concrete c \<Rightarrow> (Inr (), state))"


text \<open>
  Modelled from the spec: the body of \<open>EvalState::findFile\<close>, which \<open>eval.hh\<close> only
  declares. Section 4.5 of the specification: the search path is an ordered list of
  (prefix, target) pairs; the result is the target of the first entry whose resolved
  location exists on disk; an exhausted list is the file-not-found error naming the
  path that was looked up. How an entry resolves the requested name (\<open>resolve\<close>, none
  when the entry does not apply to it) and what exists on disk (\<open>pathExists\<close>) are
  parameters.
\<close>

type_synonym SearchPath = "(string \<times> string) list"

fun findFile ::
  "(string \<times> string \<Rightarrow> string \<Rightarrow> string option) \<Rightarrow> (string \<Rightarrow> bool) \<Rightarrow> SearchPath \<Rightarrow> string \<Rightarrow>
   error + string"
where
  "findFile resolve pathExists [] path = Inl (FileNotFound path)"
| "findFile resolve pathExists (i # searchPath) path =
     (case resolve i path of
        None \<Rightarrow> findFile resolve pathExists searchPath path
      | Some res \<Rightarrow>
          if pathExists res then Inr (snd i) else findFile resolve pathExists searchPath path)"

text \<open>
  An entry of the search path answers a request when it resolves the requested name to a
  location that exists on disk.
\<close>

definition existsOnDisk ::
  "(string \<times> string \<Rightarrow> string \<Rightarrow> string option) \<Rightarrow> (string \<Rightarrow> bool) \<Rightarrow> string \<Rightarrow>
   string \<times> string \<Rightarrow> bool"
where
  "existsOnDisk resolve pathExists path i =
     (case resolve i path of None \<Rightarrow> False | Some res \<Rightarrow> pathExists res)"

section \<open>Example inputs\<close>

text \<open>
  A state whose extension part is a counter of side effects, a \<open>parameterValue\<close> for
  values that are strings already, an impure primop that counts its calls and answers
  differently each time, and one that counts and then throws.
\<close>

definition exampleState :: "DeterministicEvaluationMode \<Rightarrow> (string, nat) EvalState_scheme" where
  "exampleState mode = \<lparr>evalMode = mode, recording = Map.empty, \<dots> = 0\<rparr>"

definition exampleParameterValue :: "(string, nat) parameterValue" where
  "exampleParameterValue state v = (Inr v, state)"

definition countingPrimOp :: "(string, string, nat) PrimOpFun" where
  "countingPrimOp state pos args =
     (Inr (if EvalState.more state = 0 then ''first'' else ''later''),
      EvalState.more_update Suc state)"

definition throwingPrimOp :: "(string, string, nat) PrimOpFun" where
  "throwingPrimOp state pos args =
     (Inl (EvalError ''no such variable''), EvalState.more_update Suc state)"

definition exampleArgs :: "nat \<Rightarrow> string" where
  "exampleArgs i = (if i = 0 then ''HOME'' else ''callback'')"

definition otherArgs :: "nat \<Rightarrow> string" where
  "otherArgs i = (if i = 0 then ''HOME'' else ''another callback'')"

definition registered :: "(string, string, nat, (string, string, nat) PrimOpFun) addPrimOp" where
  "registered name arity primOp state = primOp"

definition showExamplePos :: "string \<Rightarrow> string" where
  "showExamplePos pos = pos"

text \<open>
  The two arguments of a primop of arity 2, both in its key, and a Playback state whose
  table was supplied with the entry for them.
\<close>

definition fetchArgs :: "nat \<Rightarrow> string" where
  "fetchArgs i = (if i = 0 then ''url'' else ''sha256'')"

definition fetchedState :: "(string, nat) EvalState_scheme" where
  "fetchedState =
     \<lparr>evalMode = Playback,
      recording = [(''fetch'', [''url'', ''sha256'']) \<mapsto> ''/store/source''], \<dots> = 0\<rparr>"

text \<open>A Playback state whose table was supplied with one entry.\<close>

definition suppliedState :: "(string, nat) EvalState_scheme" where
  "suppliedState =
     \<lparr>evalMode = Playback, recording = [(''getEnv'', [''HOME'']) \<mapsto> ''/home/alice''], \<dots> = 0\<rparr>"

text \<open>
  A store whose cell 0 is a thunk, with a counter of evaluations as its extension part, an
  evaluation that counts and succeeds, and one that counts and throws.
\<close>

definition exampleStore :: "(string, nat) Store_scheme" where
  "exampleStore = \<lparr>cells = (\<lambda>a. if a = 0 then Thunk 1 2 else Concrete ''other''), \<dots> = 0\<rparr>"

definition countingEval ::
  "(string, nat) Store_scheme \<Rightarrow> nat \<Rightarrow> nat \<Rightarrow> (string, (string, nat) Store_scheme) result"
where
  "countingEval state env expr = (Inr ''forced'', Store.more_update Suc state)"


text \<open>
  A search path of three entries, each resolving a name below its target, on a disk where
  only the second and third locations exist.
\<close>

definition exampleResolve :: "string \<times> string \<Rightarrow> string \<Rightarrow> string option" where
  "exampleResolve i path = Some (snd i @ ''/'' @ path)"

definition exampleDisk :: "string \<Rightarrow> bool" where
  "exampleDisk res = (res = ''/dirB/default.nix'' \<or> res = ''/dirC/default.nix'')"

definition exampleSearchPath :: SearchPath where
  "exampleSearchPath = [(''pkgs'', ''/dirA''), (''lib'', ''/dirB''), (''more'', ''/dirC'')]"

section \<open>Auxiliary facts\<close>

lemma foldl_append_each:
  "foldl (\<lambda>errorMsg arg. errorMsg @ (arg @ sep)) init xs
     = init @ concat (map (\<lambda>arg. arg @ sep) xs)"
  by (induction xs arbitrary: init) simp_all

lemma c_str_without_NUL: "CHR 0x00 \<notin> set s \<Longrightarrow> c_str s = s"
  by (auto simp: c_str_def)

lemma argListLoop_masked_only:
  "\<forall>i\<in>set indices. useArgument i \<longrightarrow> args i = args' i \<Longrightarrow>
   argListLoop parameterValue useArgument args indices argList state
     = argListLoop parameterValue useArgument args' indices argList state"
  by (induction indices arbitrary: argList state) (auto split: prod.splits sum.splits)

text \<open>
  The loop of the source computes the key list of the specification: the accumulator
  grows by the strings of the masked arguments, in order, with the state threaded through.
\<close>

lemma argListLoop_stringifyInOrder:
  "argListLoop parameterValue useArgument args indices argList state
     = (case stringifyInOrder parameterValue (map args (filter useArgument indices)) state of
          (Inl e, s1) \<Rightarrow> (Inl e, s1)
        | (Inr ss, s1) \<Rightarrow> (Inr (argList @ ss), s1))"
  by (induction indices arbitrary: argList state) (auto split: prod.splits sum.splits)

lemma computeArgList_stringifyInOrder:
  "computeArgList parameterValue arity useArgument args state
     = stringifyInOrder parameterValue (maskedArguments arity useArgument args) state"
  by (simp add: computeArgList_def maskedArguments_def argListLoop_stringifyInOrder
      split: prod.splits sum.splits)

text \<open>
  When \<open>parameterValue\<close> neither throws nor changes the state, the key list is the list of
  the strings of the masked arguments.
\<close>

lemma stringifyInOrder_pure:
  "\<forall>s v. parameterValue s v = (Inr (stringify v), s) \<Longrightarrow>
   stringifyInOrder parameterValue vs state = (Inr (map stringify vs), state)"
  by (induction vs) simp_all

lemma computeArgList_pure:
  "\<forall>s v. parameterValue s v = (Inr (stringify v), s) \<Longrightarrow>
   computeArgList parameterValue arity useArgument args state
     = (Inr (map stringify (maskedArguments arity useArgument args)), state)"
  by (simp add: computeArgList_stringifyInOrder stringifyInOrder_pure)

lemma example_pure: "\<forall>s v. exampleParameterValue s v = (Inr (id v), s)"
  by (simp add: exampleParameterValue_def)

lemma fetch_masked: "maskedArguments 2 constTrue fetchArgs = [''url'', ''sha256'']"
  by (simp add: maskedArguments_def constTrue_def fetchArgs_def upt_rec)

lemma fetch_key:
  "stringifyInOrder exampleParameterValue (maskedArguments 2 constTrue fetchArgs) s
     = (Inr [''url'', ''sha256''], s)"
  using stringifyInOrder_pure [OF example_pure, of "maskedArguments 2 constTrue fetchArgs" s]
  by (simp add: fetch_masked)


lemma example_key:
  "computeArgList exampleParameterValue 1 constTrue exampleArgs s = (Inr [''HOME''], s)"
  by (simp add: computeArgList_def exampleParameterValue_def constTrue_def exampleArgs_def)

lemma example_thunk: "cells exampleStore 0 = Thunk 1 2"
  by (simp add: exampleStore_def)

section \<open>Record mode\<close>

text \<open>
  C1. In Record mode the real implementation is invoked whatever the Recording table
  holds, and its result is written under the key (operation name, ordered list of the
  stringified masked arguments), over any earlier entry. The key list is given in the
  words of the specification, not by the loop: \<open>key\<close> is what stringifying the masked
  arguments in order yields. Two calls with the same key are followed from a start state
  \<open>s0\<close>: stringifying the masked arguments of the first call leaves \<open>s1\<close>, the
  implementation returns \<open>v1\<close> and leaves \<open>s2\<close>; the second call starts in the state the
  first one returned, has the same key, and the implementation returns \<open>v2\<close>. Both calls
  return what the implementation returned with the state it left, and after the second
  call the table holds \<open>v2\<close> under the key: the last write wins. No hypothesis speaks
  about the table, so an entry already present changes nothing. When \<open>parameterValue\<close>
  neither throws nor changes the state, the key is the list of the strings of the masked
  arguments, in ascending position.
\<close>

theorem recordPrimOp_last_write_wins:
  assumes "stringifyInOrder parameterValue (maskedArguments arity useArgument args) s0
             = (Inr key, s1)"
    and "primOp s1 pos args = (Inr v1, s2)"
    and "stringifyInOrder parameterValue (maskedArguments arity useArgument args')
           (s2\<lparr>recording := (recording s2)((name, key) \<mapsto> v1)\<rparr>) = (Inr key, s3)"
    and "primOp s3 pos' args' = (Inr v2, s4)"
  shows "recordPrimOp parameterValue name arity primOp useArgument s0 pos args
           = (Inr v1, s2\<lparr>recording := (recording s2)((name, key) \<mapsto> v1)\<rparr>)
       \<and> recordPrimOp parameterValue name arity primOp useArgument
           (s2\<lparr>recording := (recording s2)((name, key) \<mapsto> v1)\<rparr>) pos' args'
           = (Inr v2, s4\<lparr>recording := (recording s4)((name, key) \<mapsto> v2)\<rparr>)
       \<and> recording (snd (recordPrimOp parameterValue name arity primOp useArgument
           (s2\<lparr>recording := (recording s2)((name, key) \<mapsto> v1)\<rparr>) pos' args')) (name, key)
           = Some v2
       \<and> ((\<forall>s v. parameterValue s v = (Inr (stringify v), s)) \<longrightarrow>
            key = map stringify (map args (filter useArgument [0..<arity]))
            \<and> key = map stringify (map args' (filter useArgument [0..<arity])))"
proof -
  have calls: "recordPrimOp parameterValue name arity primOp useArgument s0 pos args
           = (Inr v1, s2\<lparr>recording := (recording s2)((name, key) \<mapsto> v1)\<rparr>)
       \<and> recordPrimOp parameterValue name arity primOp useArgument
           (s2\<lparr>recording := (recording s2)((name, key) \<mapsto> v1)\<rparr>) pos' args'
           = (Inr v2, s4\<lparr>recording := (recording s4)((name, key) \<mapsto> v2)\<rparr>)
       \<and> recording (snd (recordPrimOp parameterValue name arity primOp useArgument
           (s2\<lparr>recording := (recording s2)((name, key) \<mapsto> v1)\<rparr>) pos' args')) (name, key)
           = Some v2"
    using assms by (simp add: recordPrimOp_def computeArgList_stringifyInOrder)
  have pure: "key = map stringify (map args (filter useArgument [0..<arity]))
            \<and> key = map stringify (map args' (filter useArgument [0..<arity]))"
    if "\<forall>s v. parameterValue s v = (Inr (stringify v), s)"
    using assms(1,3) stringifyInOrder_pure [OF that] by (simp add: maskedArguments_def)
  from calls pure show ?thesis by blast
qed

text \<open>
  The counting primop of arity 2 is recorded twice under \<open>(fetch, [url, sha256])\<close>, the
  strings of its two arguments in order: the table ends with the answer of the second
  call, and the counter shows that the implementation ran twice.
\<close>

theorem recordPrimOp_last_write_wins_witness:
  "recording (snd (recordPrimOp exampleParameterValue ''fetch'' 2 countingPrimOp constTrue
      (snd (recordPrimOp exampleParameterValue ''fetch'' 2 countingPrimOp constTrue
         (exampleState Record) ''a.nix:1:1'' fetchArgs)) ''a.nix:2:1'' fetchArgs))
     (''fetch'', [''url'', ''sha256'']) = Some ''later''
   \<and> EvalState.more (snd (recordPrimOp exampleParameterValue ''fetch'' 2 countingPrimOp
      constTrue (snd (recordPrimOp exampleParameterValue ''fetch'' 2 countingPrimOp constTrue
         (exampleState Record) ''a.nix:1:1'' fetchArgs)) ''a.nix:2:1'' fetchArgs)) = 2
   \<and> [''url'', ''sha256''] = map id (map fetchArgs (filter constTrue [0..<2]))"
proof -
  let ?s0 = "exampleState Record"
  let ?s2 = "EvalState.more_update Suc ?s0"
  let ?sA = "?s2\<lparr>recording := (recording ?s2)((''fetch'', [''url'', ''sha256'']) \<mapsto> ''first'')\<rparr>"
  let ?s4 = "EvalState.more_update Suc ?sA"
  have p1: "countingPrimOp ?s0 ''a.nix:1:1'' fetchArgs = (Inr ''first'', ?s2)"
    by (simp add: countingPrimOp_def exampleState_def)
  have p2: "countingPrimOp ?sA ''a.nix:2:1'' fetchArgs = (Inr ''later'', ?s4)"
    by (simp add: countingPrimOp_def exampleState_def)
  note inst = recordPrimOp_last_write_wins
         [where primOp = countingPrimOp and parameterValue = exampleParameterValue
            and name = "''fetch''" and stringify = id, OF fetch_key p1 fetch_key p2]
  from inst have first: "recordPrimOp exampleParameterValue ''fetch'' 2 countingPrimOp constTrue
         ?s0 ''a.nix:1:1'' fetchArgs = (Inr ''first'', ?sA)"
    and second: "recordPrimOp exampleParameterValue ''fetch'' 2 countingPrimOp constTrue
         ?sA ''a.nix:2:1'' fetchArgs
           = (Inr ''later'',
              ?s4\<lparr>recording := (recording ?s4)((''fetch'', [''url'', ''sha256'']) \<mapsto> ''later'')\<rparr>)"
    by blast+
  from inst example_pure
  have key: "[''url'', ''sha256''] = map id (map fetchArgs (filter constTrue [0..<2]))"
    by blast
  from first second key show ?thesis by (simp add: exampleState_def)
qed

text \<open>
  C10. When the real implementation throws in Record mode, the wrapper writes nothing: the
  call ends with the same error, in exactly the state \<open>s2\<close> in which the implementation
  threw. The table after the failed call is the table the implementation left, and it is
  the table from before the call whenever the key computation and the implementation
  did not write to it themselves.
\<close>

theorem recordPrimOp_error_writes_nothing:
  assumes "computeArgList parameterValue arity useArgument args state = (Inr key, s1)"
    and "primOp s1 pos args = (Inl e, s2)"
  shows "recordPrimOp parameterValue name arity primOp useArgument state pos args = (Inl e, s2)
       \<and> recording (snd (recordPrimOp parameterValue name arity primOp useArgument state pos args))
           = recording s2
       \<and> (recording s2 = recording state \<longrightarrow>
            recording (snd (recordPrimOp parameterValue name arity primOp useArgument state pos args))
              = recording state)"
  using assms by (simp add: recordPrimOp_def)

text \<open>
  The throwing primop, recorded in a state that already holds an entry under the key: the
  error comes back, the side effect of the implementation is there, the table is as before.
\<close>

theorem recordPrimOp_error_writes_nothing_witness:
  "recordPrimOp exampleParameterValue ''getEnv'' 1 throwingPrimOp constTrue suppliedState
      ''a.nix:1:1'' exampleArgs
     = (Inl (EvalError ''no such variable''), EvalState.more_update Suc suppliedState)
   \<and> recording (snd (recordPrimOp exampleParameterValue ''getEnv'' 1 throwingPrimOp constTrue
        suppliedState ''a.nix:1:1'' exampleArgs)) = recording suppliedState"
proof -
  have thrown: "throwingPrimOp suppliedState ''a.nix:1:1'' exampleArgs
      = (Inl (EvalError ''no such variable''), EvalState.more_update Suc suppliedState)"
    by (simp add: throwingPrimOp_def)
  from recordPrimOp_error_writes_nothing
         [where parameterValue = exampleParameterValue and primOp = throwingPrimOp,
          OF example_key thrown]
  show ?thesis by simp
qed

section \<open>Playback mode\<close>

text \<open>
  C2. In Playback mode, when the key of the call (operation name, ordered list of the
  stringified masked arguments, in the words of the specification) is in the Recording
  table, the wrapper returns the value stored under it and leaves the state as
  stringifying the arguments left it. This holds for every real implementation \<open>primOp\<close>,
  also one that would change the state or fail: it is never invoked. When
  \<open>parameterValue\<close> neither throws nor changes the state, the key is the list of the
  strings of the masked arguments, in ascending position, and the state after the call is
  the state before it.
\<close>

theorem playbackPrimOp_hit:
  assumes "stringifyInOrder parameterValue (maskedArguments arity useArgument args) state
             = (Inr key, s1)"
    and "recording s1 (name, key) = Some stored"
  shows "playbackPrimOp parameterValue name arity primOp useArgument state pos args
           = (Inr stored, s1)
       \<and> ((\<forall>s v. parameterValue s v = (Inr (stringify v), s)) \<longrightarrow>
            key = map stringify (map args (filter useArgument [0..<arity])) \<and> s1 = state)"
proof -
  have returned: "playbackPrimOp parameterValue name arity primOp useArgument state pos args
           = (Inr stored, s1)"
    using assms by (simp add: playbackPrimOp_def computeArgList_stringifyInOrder)
  have pure: "key = map stringify (map args (filter useArgument [0..<arity])) \<and> s1 = state"
    if "\<forall>s v. parameterValue s v = (Inr (stringify v), s)"
    using assms(1) stringifyInOrder_pure [OF that] by (simp add: maskedArguments_def)
  from returned pure show ?thesis by blast
qed

text \<open>
  The counting primop of arity 2 played back from the supplied table: the value stored
  under \<open>(fetch, [url, sha256])\<close> comes back and the counter of side effects stays at zero.
\<close>

theorem playbackPrimOp_hit_witness:
  "playbackPrimOp exampleParameterValue ''fetch'' 2 countingPrimOp constTrue fetchedState
      ''a.nix:1:1'' fetchArgs = (Inr ''/store/source'', fetchedState)
   \<and> EvalState.more fetchedState = 0
   \<and> [''url'', ''sha256''] = map id (map fetchArgs (filter constTrue [0..<2]))"
proof -
  have hit: "recording fetchedState (''fetch'', [''url'', ''sha256'']) = Some ''/store/source''"
    by (simp add: fetchedState_def)
  note inst = playbackPrimOp_hit
         [where parameterValue = exampleParameterValue and primOp = countingPrimOp
            and stringify = id and pos = "''a.nix:1:1''", OF fetch_key hit]
  from inst have returned: "playbackPrimOp exampleParameterValue ''fetch'' 2 countingPrimOp
      constTrue fetchedState ''a.nix:1:1'' fetchArgs = (Inr ''/store/source'', fetchedState)"
    by blast
  from inst example_pure
  have key: "[''url'', ''sha256''] = map id (map fetchArgs (filter constTrue [0..<2]))"
    by blast
  have untouched: "EvalState.more fetchedState = 0"
    by (simp add: fetchedState_def)
  from returned untouched key show ?thesis by blast
qed

text \<open>
  C3. In Playback mode, when the key of the call (operation name, ordered list of the
  stringified masked arguments, in the words of the specification) is not in the
  Recording table, the wrapper throws an \<open>EvalError\<close> and leaves the state as stringifying
  the arguments left it, for every real implementation: it is not invoked. The message is
  the C string of \<open>wanted to call\<close>, the operation name, an opening parenthesis, each
  argument string of the key, in order, followed by a comma and a space, and a closing
  parenthesis; when neither the name nor an argument string holds a NUL byte, the C string
  is that whole text. When \<open>parameterValue\<close> neither throws nor changes the state, the
  argument strings are the strings of the masked arguments, in ascending position.
\<close>

theorem playbackPrimOp_miss:
  assumes "stringifyInOrder parameterValue (maskedArguments arity useArgument args) state
             = (Inr key, s1)"
    and "recording s1 (name, key) = None"
  shows "playbackPrimOp parameterValue name arity primOp useArgument state pos args
           = (Inl (EvalError (c_str (''wanted to call '' @ name @ ''(''
                @ concat (map (\<lambda>arg. arg @ '', '') key) @ '')''))), s1)
       \<and> (CHR 0x00 \<notin> set name \<and> (\<forall>arg\<in>set key. CHR 0x00 \<notin> set arg) \<longrightarrow>
            c_str (''wanted to call '' @ name @ ''(''
                @ concat (map (\<lambda>arg. arg @ '', '') key) @ '')'')
              = ''wanted to call '' @ name @ ''(''
                @ concat (map (\<lambda>arg. arg @ '', '') key) @ '')'')
       \<and> ((\<forall>s v. parameterValue s v = (Inr (stringify v), s)) \<longrightarrow>
            key = map stringify (map args (filter useArgument [0..<arity])) \<and> s1 = state)"
proof -
  have thrown: "playbackPrimOp parameterValue name arity primOp useArgument state pos args
           = (Inl (EvalError (c_str (''wanted to call '' @ name @ ''(''
                @ concat (map (\<lambda>arg. arg @ '', '') key) @ '')''))), s1)"
    using assms
    by (simp add: playbackPrimOp_def computeArgList_stringifyInOrder foldl_append_each)
  have whole: "CHR 0x00 \<notin> set name \<and> (\<forall>arg\<in>set key. CHR 0x00 \<notin> set arg) \<longrightarrow>
            c_str (''wanted to call '' @ name @ ''(''
                @ concat (map (\<lambda>arg. arg @ '', '') key) @ '')'')
              = ''wanted to call '' @ name @ ''(''
                @ concat (map (\<lambda>arg. arg @ '', '') key) @ '')''"
    by (auto intro!: c_str_without_NUL split: if_splits)
  have pure: "key = map stringify (map args (filter useArgument [0..<arity])) \<and> s1 = state"
    if "\<forall>s v. parameterValue s v = (Inr (stringify v), s)"
    using assms(1) stringifyInOrder_pure [OF that] by (simp add: maskedArguments_def)
  from thrown whole pure show ?thesis by blast
qed

text \<open>
  The counting primop of arity 2 played back from a table that holds another key: the
  error names \<open>fetch\<close> and the strings of both arguments in order, and the state, with its
  counter at zero, is the one the call started in.
\<close>

theorem playbackPrimOp_miss_witness:
  "playbackPrimOp exampleParameterValue ''fetch'' 2 countingPrimOp constTrue
      suppliedState ''a.nix:1:1'' fetchArgs
     = (Inl (EvalError ''wanted to call fetch(url, sha256, )''), suppliedState)
   \<and> [''url'', ''sha256''] = map id (map fetchArgs (filter constTrue [0..<2]))"
proof -
  have miss: "recording suppliedState (''fetch'', [''url'', ''sha256'']) = None"
    by (simp add: suppliedState_def)
  have clean: "CHR 0x00 \<notin> set ''fetch''
      \<and> (\<forall>arg\<in>set [''url'', ''sha256'']. CHR 0x00 \<notin> set arg)"
    by simp
  note inst = playbackPrimOp_miss
         [where parameterValue = exampleParameterValue and primOp = countingPrimOp
            and name = "''fetch''" and pos = "''a.nix:1:1''" and stringify = id,
          OF fetch_key miss]
  from inst example_pure
  have key: "[''url'', ''sha256''] = map id (map fetchArgs (filter constTrue [0..<2]))"
    by blast
  from inst clean
  have "playbackPrimOp exampleParameterValue ''fetch'' 2 countingPrimOp constTrue
      suppliedState ''a.nix:1:1'' fetchArgs
     = (Inl (EvalError ''wanted to call fetch(url, sha256, )''), suppliedState)"
    by simp
  with key show ?thesis by blast
qed

section \<open>The choice of the wrapper\<close>

text \<open>
  C4, as the code has it. \<open>transformPrimOp\<close> has no case for \<open>RecordAndPlayback\<close>: in that
  mode it calls \<open>abort()\<close>, so registering an impure built-in with \<open>addImpurePrimOp\<close> ends
  the process, no wrapper exists and no invocation follows. In \<open>Record\<close> mode it returns
  \<open>recordPrimOp\<close>, in \<open>Playback\<close> mode \<open>playbackPrimOp\<close>, in \<open>Normal\<close> mode the real
  implementation itself.
\<close>

theorem transformPrimOp_by_mode:
  "transformPrimOp parameterValue name arity primOp useArguments
       (state\<lparr>evalMode := RecordAndPlayback\<rparr>) = Inl Abort
   \<and> addImpurePrimOp addPrimOp parameterValue name arity primOp useArguments
       (state\<lparr>evalMode := RecordAndPlayback\<rparr>) = Inl Abort
   \<and> transformPrimOp parameterValue name arity primOp useArguments (state\<lparr>evalMode := Record\<rparr>)
     = Inr (recordPrimOp parameterValue name arity primOp useArguments)
   \<and> transformPrimOp parameterValue name arity primOp useArguments (state\<lparr>evalMode := Playback\<rparr>)
     = Inr (playbackPrimOp parameterValue name arity primOp useArguments)
   \<and> transformPrimOp parameterValue name arity primOp useArguments (state\<lparr>evalMode := Normal\<rparr>)
     = Inr primOp"
  by (simp add: transformPrimOp_def addImpurePrimOp_def)

text \<open>
  The claim as the specification states it (a lookup first, the Record path on a miss)
  fails on the supplied table put in \<open>RecordAndPlayback\<close> mode: the key of the call is
  there, and still no stored value is returned, since registering the primop aborts.
\<close>

theorem transformPrimOp_RecordAndPlayback_counterexample:
  "recording (suppliedState\<lparr>evalMode := RecordAndPlayback\<rparr>) (''getEnv'', [''HOME''])
     = Some ''/home/alice''
   \<and> addImpurePrimOp registered exampleParameterValue ''getEnv'' 1 countingPrimOp constTrue
       (suppliedState\<lparr>evalMode := RecordAndPlayback\<rparr>) = Inl Abort"
  by (simp add: transformPrimOp_def addImpurePrimOp_def suppliedState_def)

text \<open>
  C5. What \<open>addUnsupportedImpurePrimOp\<close> registers, mode by mode. In \<open>Record\<close> and in
  \<open>Playback\<close> mode it is \<open>unsupportedPrimOp\<close>, which throws, for every state, position and
  argument array, the \<open>EvalError\<close> whose message holds the operation name and the position
  of the call, and changes nothing. In \<open>Normal\<close> mode it is the real implementation. The
  guard names \<open>Record\<close> and \<open>Playback\<close> only, so in \<open>RecordAndPlayback\<close> mode the \<open>else\<close>
  branch registers the real implementation too, although \<open>isInPlaybackMode\<close> counts that
  mode as a playback mode and \<open>transformPrimOp\<close> hands out the real implementation of an
  impure primop in \<open>Normal\<close> mode alone: there the code departs from the claim that the
  real implementation runs in \<open>Normal\<close> mode only.
\<close>

theorem addUnsupportedImpurePrimOp_by_mode:
  "addUnsupportedImpurePrimOp addPrimOp showPos name arity primOp (state\<lparr>evalMode := Record\<rparr>)
     = addPrimOp name arity (unsupportedPrimOp showPos name) (state\<lparr>evalMode := Record\<rparr>)
   \<and> addUnsupportedImpurePrimOp addPrimOp showPos name arity primOp (state\<lparr>evalMode := Playback\<rparr>)
     = addPrimOp name arity (unsupportedPrimOp showPos name) (state\<lparr>evalMode := Playback\<rparr>)
   \<and> addUnsupportedImpurePrimOp addPrimOp showPos name arity primOp (state\<lparr>evalMode := Normal\<rparr>)
     = addPrimOp name arity primOp (state\<lparr>evalMode := Normal\<rparr>)
   \<and> addUnsupportedImpurePrimOp addPrimOp showPos name arity primOp
       (state\<lparr>evalMode := RecordAndPlayback\<rparr>)
     = addPrimOp name arity primOp (state\<lparr>evalMode := RecordAndPlayback\<rparr>)
   \<and> unsupportedPrimOp showPos name callState pos args
     = (Inl (EvalError (''primop '' @ [CHR 0x27] @ name @ [CHR 0x27]
          @ '' is not (yet) supported in Record/Playback mode (used at '' @ [CHR 0x27]
          @ showPos pos @ [CHR 0x27] @ '')'')), callState)
   \<and> isInPlaybackMode (state\<lparr>evalMode := RecordAndPlayback\<rparr>)
   \<and> transformPrimOp parameterValue name arity primOp useArguments
       (state\<lparr>evalMode := RecordAndPlayback\<rparr>) = Inl Abort"
  by (simp add: addUnsupportedImpurePrimOp_def unsupportedPrimOp_def isInPlaybackMode_def
      transformPrimOp_def)

section \<open>The key and the argument-usage mask\<close>

text \<open>
  C6. The key list that both wrappers compute depends on the argument array only through
  the positions below \<open>arity\<close> that the mask selects. For two argument arrays that agree on
  those positions, started in the same state, the key computation gives the same result
  (list and state); \<open>playbackPrimOp\<close> as a whole gives the same result; and \<open>recordPrimOp\<close>
  called with the second array writes under the key computed from the first.
\<close>

theorem key_depends_on_masked_arguments_only:
  assumes "\<forall>i<arity. useArgument i \<longrightarrow> args i = args' i"
  shows "computeArgList parameterValue arity useArgument args state
           = computeArgList parameterValue arity useArgument args' state
       \<and> playbackPrimOp parameterValue name arity primOp useArgument state pos args
           = playbackPrimOp parameterValue name arity primOp useArgument state pos args'
       \<and> recordPrimOp parameterValue name arity primOp useArgument state pos args'
           = (case computeArgList parameterValue arity useArgument args state of
                (Inl e, s1) \<Rightarrow> (Inl e, s1)
              | (Inr argList, s1) \<Rightarrow>
                  (case primOp s1 pos args' of
                     (Inl e, s2) \<Rightarrow> (Inl e, s2)
                   | (Inr v, s2) \<Rightarrow>
                       (Inr v, s2\<lparr>recording := (recording s2)((name, argList) \<mapsto> v)\<rparr>)))"
proof -
  have "\<forall>i\<in>set [0..<arity]. useArgument i \<longrightarrow> args i = args' i"
    using assms by simp
  then have same: "computeArgList parameterValue arity useArgument args state
           = computeArgList parameterValue arity useArgument args' state"
    unfolding computeArgList_def by (rule argListLoop_masked_only)
  then show ?thesis
    by (simp add: playbackPrimOp_def recordPrimOp_def)
qed

text \<open>
  A primop of arity 2 whose mask is \<open>onlyPos 0\<close>: two calls that differ in the callback at
  position 1 have the key \<open>[HOME]\<close> both.
\<close>

theorem key_depends_on_masked_arguments_only_witness:
  "exampleArgs 1 \<noteq> otherArgs 1
   \<and> computeArgList exampleParameterValue 2 (onlyPos 0) exampleArgs (exampleState Record)
       = computeArgList exampleParameterValue 2 (onlyPos 0) otherArgs (exampleState Record)
   \<and> computeArgList exampleParameterValue 2 (onlyPos 0) otherArgs (exampleState Record)
       = (Inr [''HOME''], exampleState Record)"
proof -
  have masked: "\<forall>i<2. onlyPos 0 i \<longrightarrow> exampleArgs i = otherArgs i"
    by (simp add: onlyPos_def exampleArgs_def otherArgs_def)
  have differ: "exampleArgs 1 \<noteq> otherArgs 1"
    by (simp add: exampleArgs_def otherArgs_def)
  have other: "computeArgList exampleParameterValue 2 (onlyPos 0) otherArgs (exampleState Record)
       = (Inr [''HOME''], exampleState Record)"
    by (simp add: computeArgList_def exampleParameterValue_def onlyPos_def otherArgs_def upt_rec)
  from key_depends_on_masked_arguments_only
         [where parameterValue = exampleParameterValue and primOp = countingPrimOp
            and state = "exampleState Record", OF masked]
  have "computeArgList exampleParameterValue 2 (onlyPos 0) exampleArgs (exampleState Record)
       = computeArgList exampleParameterValue 2 (onlyPos 0) otherArgs (exampleState Record)"
    by blast
  with differ other show ?thesis by simp
qed

section \<open>Forcing a value cell\<close>

text \<open>
  C7. Forcing a thunk cell whose evaluation succeeds with \<open>r\<close> overwrites the cell with
  \<open>r\<close>; in every later state in which the cell is as that force left it, whoever holds
  the address, a force returns at once with the state unchanged. The later force is
  stated for any \<open>eval'\<close> and \<open>callFunction'\<close>, so it invokes neither: the expression is
  evaluated once.
\<close>

theorem forceValue_memoizes:
  assumes "cells state v = Thunk env expr"
    and "eval (state\<lparr>cells := (cells state)(v := Blackhole)\<rparr>) env expr = (Inr r, s1)"
    and "cells later v = cells (snd (forceValue eval callFunction state pos v)) v"
  shows "forceValue eval callFunction state pos v
           = (Inr (), s1\<lparr>cells := (cells s1)(v := Concrete r)\<rparr>)
       \<and> cells (snd (forceValue eval callFunction state pos v)) v = Concrete r
       \<and> forceValue eval' callFunction' later pos' v = (Inr (), later)"
proof -
  have first: "forceValue eval callFunction state pos v
           = (Inr (), s1\<lparr>cells := (cells s1)(v := Concrete r)\<rparr>)"
    using assms(1,2) by (simp add: forceValue_def)
  then have cell: "cells (snd (forceValue eval callFunction state pos v)) v = Concrete r"
    by simp
  with assms(3) have "cells later v = Concrete r"
    by simp
  then have "forceValue eval' callFunction' later pos' v = (Inr (), later)"
    by (simp add: forceValue_def)
  with first cell show ?thesis by blast
qed

text \<open>
  Cell 0 of the example store forced twice with the counting evaluation: the second force
  changes nothing, the counter of evaluations is 1, the cell holds the result.
\<close>

theorem forceValue_memoizes_witness:
  "forceValue countingEval countingEval
      (snd (forceValue countingEval countingEval exampleStore ''a.nix:1:1'' 0)) ''a.nix:2:1'' 0
     = (Inr (), snd (forceValue countingEval countingEval exampleStore ''a.nix:1:1'' 0))
   \<and> Store.more (snd (forceValue countingEval countingEval exampleStore ''a.nix:1:1'' 0)) = 1
   \<and> cells (snd (forceValue countingEval countingEval exampleStore ''a.nix:1:1'' 0)) 0
       = Concrete ''forced''"
proof -
  let ?marked = "exampleStore\<lparr>cells := (cells exampleStore)(0 := Blackhole)\<rparr>"
  have evaluated: "countingEval ?marked 1 2 = (Inr ''forced'', Store.more_update Suc ?marked)"
    by (simp add: countingEval_def)
  from forceValue_memoizes
         [where eval = countingEval and callFunction = countingEval and eval' = countingEval
            and callFunction' = countingEval and pos = "''a.nix:1:1''" and pos' = "''a.nix:2:1''"
            and later = "snd (forceValue countingEval countingEval exampleStore ''a.nix:1:1'' 0)",
          OF example_thunk evaluated refl]
  have first: "forceValue countingEval countingEval exampleStore ''a.nix:1:1'' 0
      = (Inr (), (Store.more_update Suc ?marked)
           \<lparr>cells := (cells (Store.more_update Suc ?marked))(0 := Concrete ''forced'')\<rparr>)"
    and cell: "cells (snd (forceValue countingEval countingEval exampleStore ''a.nix:1:1'' 0)) 0
      = Concrete ''forced''"
    and second: "forceValue countingEval countingEval
      (snd (forceValue countingEval countingEval exampleStore ''a.nix:1:1'' 0)) ''a.nix:2:1'' 0
     = (Inr (), snd (forceValue countingEval countingEval exampleStore ''a.nix:1:1'' 0))"
    by blast+
  have once: "Store.more (snd (forceValue countingEval countingEval exampleStore ''a.nix:1:1'' 0)) = 1"
    using first by (simp add: exampleStore_def)
  from second once cell show ?thesis by blast
qed




section \<open>The search path\<close>

text \<open>
  C9. \<open>findFile\<close> returns the target of the first entry, in list order, that resolves the
  requested name to a location existing on disk: when no entry of \<open>before\<close> does and \<open>i\<close>
  does, the result for \<open>before @ i # after\<close> is the target of \<open>i\<close>, whatever \<open>after\<close> holds.
  When no entry of the search path does, the result is the file-not-found error naming
  the requested path.
\<close>

theorem findFile_first_existing_entry:
  "((\<forall>b\<in>set before. \<not> existsOnDisk resolve pathExists path b)
      \<and> existsOnDisk resolve pathExists path i \<longrightarrow>
      findFile resolve pathExists (before @ i # after) path = Inr (snd i))
   \<and> ((\<forall>b\<in>set searchPath. \<not> existsOnDisk resolve pathExists path b) \<longrightarrow>
      findFile resolve pathExists searchPath path = Inl (FileNotFound path))"
proof -
  have hit: "findFile resolve pathExists (before @ i # after) path = Inr (snd i)"
    if "\<forall>b\<in>set before. \<not> existsOnDisk resolve pathExists path b"
      and "existsOnDisk resolve pathExists path i"
    using that by (induction before) (auto simp: existsOnDisk_def split: option.splits)
  have miss: "findFile resolve pathExists searchPath path = Inl (FileNotFound path)"
    if "\<forall>b\<in>set searchPath. \<not> existsOnDisk resolve pathExists path b"
    using that by (induction searchPath) (auto simp: existsOnDisk_def split: option.splits)
  from hit miss show ?thesis by blast
qed

text \<open>
  On the example disk the first entry does not exist, the second and third do: the second
  wins. With the first entry alone the search fails.
\<close>

theorem findFile_first_existing_entry_witness:
  "findFile exampleResolve exampleDisk exampleSearchPath ''default.nix'' = Inr ''/dirB''
   \<and> findFile exampleResolve exampleDisk [(''pkgs'', ''/dirA'')] ''default.nix''
       = Inl (FileNotFound ''default.nix'')"
proof -
  have a: "\<forall>b\<in>set [(''pkgs'', ''/dirA'')].
             \<not> existsOnDisk exampleResolve exampleDisk ''default.nix'' b"
    by (simp add: existsOnDisk_def exampleResolve_def exampleDisk_def)
  have b: "existsOnDisk exampleResolve exampleDisk ''default.nix'' (''lib'', ''/dirB'')"
    by (simp add: existsOnDisk_def exampleResolve_def exampleDisk_def)
  from findFile_first_existing_entry
         [of "[(''pkgs'', ''/dirA'')]" exampleResolve exampleDisk "''default.nix''"
             "(''lib'', ''/dirB'')" "[(''more'', ''/dirC'')]" "[(''pkgs'', ''/dirA'')]"] a b
  show ?thesis by (simp add: exampleSearchPath_def)
qed

end
